theory Spec2Isabelle
  imports Main "HOL-Library.Word" "HOL-Library.Monad_Syntax"
begin

unbundle bit_operations_syntax

section \<open>Scalars and SIMD vectors\<close>

text \<open>
  \<^verbatim>\<open>ShaderTypes.h\<close> declares data only: three structs shared by the host (Swift) and
  the device (Metal), with no function, no control flow and no arithmetic. A C
  \<^verbatim>\<open>float\<close> is therefore never computed with here, only stored and copied; it
  is represented by its 32-bit storage pattern. A C \<^verbatim>\<open>int\<close> is a 32-bit
  two's-complement integer, read with \<^const>\<open>sint\<close>.
\<close>

type_synonym float32 = "32 word"
type_synonym c_int = "32 word"

text \<open>
  Modelled from the spec: the vector and matrix types \<^verbatim>\<open>simd_float2\<close>,
  \<^verbatim>\<open>simd_float3\<close>, \<^verbatim>\<open>simd_float4x4\<close> come from the platform header
  \<^verbatim>\<open>simd/simd.h\<close>, which is not part of the repository. They are taken as
  the specification describes them: an n-component float vector has n float
  components, a 4x4 float matrix has four columns of four floats.
\<close>

datatype simd_float2 = simd_make_float2 (f2x: float32) (f2y: float32)

datatype simd_float3 = simd_make_float3 (f3x: float32) (f3y: float32) (f3z: float32)

datatype simd_float4 =
  simd_make_float4 (f4x: float32) (f4y: float32) (f4z: float32) (f4w: float32)

datatype simd_float4x4 =
  simd_matrix (col0: simd_float4) (col1: simd_float4) (col2: simd_float4) (col3: simd_float4)

section \<open>Fixed-capacity arrays\<close>

text \<open>
  A C array \<^verbatim>\<open>T a[10]\<close> has exactly ten slots, all of them allocated whatever
  the program stores in them. \<open>elems\<close> lists the slots in index order, and
  \<open>subscript\<close> is \<^verbatim>\<open>a[i]\<close>: \<open>None\<close> stands for an access outside the
  array's storage, which C leaves undefined.
\<close>

datatype 'a array10 = Array10 'a 'a 'a 'a 'a 'a 'a 'a 'a 'a

fun elems :: "'a array10 \<Rightarrow> 'a list" where
  "elems (Array10 a0 a1 a2 a3 a4 a5 a6 a7 a8 a9) = [a0, a1, a2, a3, a4, a5, a6, a7, a8, a9]"

definition subscript :: "'a array10 \<Rightarrow> int \<Rightarrow> 'a option" where
  "subscript a i =
     (if 0 \<le> i \<and> i < int (length (elems a)) then Some (elems a ! nat i) else None)"

section \<open>The shared structs\<close>

text \<open>
  \<^verbatim>\<open>
  typedef struct {
      simd_float3 position;
      simd_float3 normal;
  } VertexIn;
  \<close>
\<close>

record VertexIn =
  position :: simd_float3
  normal :: simd_float3

text \<open>
  \<^verbatim>\<open>
  typedef struct {
      simd_float4x4 modelMatrix;
      simd_float4x4 viewProjectionMatrix;
      simd_float3 cameraPosition;
      simd_float2 spherePosition;
      float sphereScale;
  } VertexUniforms;
  \<close>
\<close>

record VertexUniforms =
  modelMatrix :: simd_float4x4
  viewProjectionMatrix :: simd_float4x4
  cameraPosition :: simd_float3
  spherePosition :: simd_float2
  sphereScale :: float32

text \<open>
  \<^verbatim>\<open>
  typedef struct {
      simd_float3 colors[10];
      int colorCount;
      float time;
      simd_float3 lightPosition;
      float colorCycleDuration;
      float glowIntensity;
  } FragmentUniforms;
  \<close>
\<close>

record FragmentUniforms =
  colors :: "simd_float3 array10"
  colorCount :: c_int
  time :: float32
  lightPosition :: simd_float3
  colorCycleDuration :: float32
  glowIntensity :: float32

section \<open>Passing a struct through a shared buffer\<close>

text \<open>
  Modelled from the spec: the host code that writes a struct into a buffer and
  the device code that reads it are missing from the available sources; the
  header holds the declarations only. Following the specification, the host writes the
  fields of an instance into a byte buffer in declaration order and the device
  reads them from the buffer in the same order, with the widths the
  specification gives: a float and a count take 32 bits each (four bytes, least
  significant byte first), an n-component vector its n floats, a matrix its
  sixteen floats column by column, the array its ten vectors in index order.
  The specification describes no padding, and the model has none. A read
  returns \<open>None\<close> when the buffer ends before the value does.
\<close>

type_synonym byte = "8 word"
type_synonym buffer = "byte list"

definition put_u32 :: "32 word \<Rightarrow> buffer" where
  "put_u32 w = [ucast w, ucast (drop_bit 8 w), ucast (drop_bit 16 w), ucast (drop_bit 24 w)]"

fun get_u32 :: "buffer \<Rightarrow> (32 word \<times> buffer) option" where
  "get_u32 (b0 # b1 # b2 # b3 # rest) =
     Some (ucast b0 OR push_bit 8 (ucast b1) OR push_bit 16 (ucast b2)
             OR push_bit 24 (ucast b3), rest)"
| "get_u32 _ = None"

definition put_float2 :: "simd_float2 \<Rightarrow> buffer" where
  "put_float2 v = put_u32 (f2x v) @ put_u32 (f2y v)"

definition get_float2 :: "buffer \<Rightarrow> (simd_float2 \<times> buffer) option" where
  "get_float2 buf = do {
     (x, b1) \<leftarrow> get_u32 buf;
     (y, b2) \<leftarrow> get_u32 b1;
     Some (simd_make_float2 x y, b2)
   }"

definition put_float3 :: "simd_float3 \<Rightarrow> buffer" where
  "put_float3 v = put_u32 (f3x v) @ put_u32 (f3y v) @ put_u32 (f3z v)"

definition get_float3 :: "buffer \<Rightarrow> (simd_float3 \<times> buffer) option" where
  "get_float3 buf = do {
     (x, b1) \<leftarrow> get_u32 buf;
     (y, b2) \<leftarrow> get_u32 b1;
     (z, b3) \<leftarrow> get_u32 b2;
     Some (simd_make_float3 x y z, b3)
   }"

definition put_float4 :: "simd_float4 \<Rightarrow> buffer" where
  "put_float4 v = put_u32 (f4x v) @ put_u32 (f4y v) @ put_u32 (f4z v) @ put_u32 (f4w v)"

definition get_float4 :: "buffer \<Rightarrow> (simd_float4 \<times> buffer) option" where
  "get_float4 buf = do {
     (x, b1) \<leftarrow> get_u32 buf;
     (y, b2) \<leftarrow> get_u32 b1;
     (z, b3) \<leftarrow> get_u32 b2;
     (w, b4) \<leftarrow> get_u32 b3;
     Some (simd_make_float4 x y z w, b4)
   }"

definition put_float4x4 :: "simd_float4x4 \<Rightarrow> buffer" where
  "put_float4x4 m =
     put_float4 (col0 m) @ put_float4 (col1 m) @ put_float4 (col2 m) @ put_float4 (col3 m)"

definition get_float4x4 :: "buffer \<Rightarrow> (simd_float4x4 \<times> buffer) option" where
  "get_float4x4 buf = do {
     (c0, b1) \<leftarrow> get_float4 buf;
     (c1, b2) \<leftarrow> get_float4 b1;
     (c2, b3) \<leftarrow> get_float4 b2;
     (c3, b4) \<leftarrow> get_float4 b3;
     Some (simd_matrix c0 c1 c2 c3, b4)
   }"

definition put_array10 :: "('a \<Rightarrow> buffer) \<Rightarrow> 'a array10 \<Rightarrow> buffer" where
  "put_array10 put a = concat (map put (elems a))"

definition get_array10 ::
  "(buffer \<Rightarrow> ('a \<times> buffer) option) \<Rightarrow> buffer \<Rightarrow> ('a array10 \<times> buffer) option" where
  "get_array10 get buf = do {
     (a0, b1) \<leftarrow> get buf;
     (a1, b2) \<leftarrow> get b1;
     (a2, b3) \<leftarrow> get b2;
     (a3, b4) \<leftarrow> get b3;
     (a4, b5) \<leftarrow> get b4;
     (a5, b6) \<leftarrow> get b5;
     (a6, b7) \<leftarrow> get b6;
     (a7, b8) \<leftarrow> get b7;
     (a8, b9) \<leftarrow> get b8;
     (a9, b10) \<leftarrow> get b9;
     Some (Array10 a0 a1 a2 a3 a4 a5 a6 a7 a8 a9, b10)
   }"

text \<open>The host side: the fields of an instance, in declaration order.\<close>

definition write_VertexIn :: "VertexIn \<Rightarrow> buffer" where
  "write_VertexIn v = put_float3 (position v) @ put_float3 (normal v)"

definition write_VertexUniforms :: "VertexUniforms \<Rightarrow> buffer" where
  "write_VertexUniforms u =
     put_float4x4 (modelMatrix u) @ put_float4x4 (viewProjectionMatrix u)
     @ put_float3 (cameraPosition u) @ put_float2 (spherePosition u)
     @ put_u32 (sphereScale u)"

definition write_FragmentUniforms :: "FragmentUniforms \<Rightarrow> buffer" where
  "write_FragmentUniforms f =
     put_array10 put_float3 (colors f) @ put_u32 (colorCount f) @ put_u32 (time f)
     @ put_float3 (lightPosition f) @ put_u32 (colorCycleDuration f)
     @ put_u32 (glowIntensity f)"

text \<open>The device side: the struct at the start of the buffer.\<close>

definition read_VertexIn :: "buffer \<Rightarrow> VertexIn option" where
  "read_VertexIn buf = do {
     (p, b1) \<leftarrow> get_float3 buf;
     (n, b2) \<leftarrow> get_float3 b1;
     Some \<lparr>position = p, normal = n\<rparr>
   }"

definition read_VertexUniforms :: "buffer \<Rightarrow> VertexUniforms option" where
  "read_VertexUniforms buf = do {
     (m, b1) \<leftarrow> get_float4x4 buf;
     (vp, b2) \<leftarrow> get_float4x4 b1;
     (c, b3) \<leftarrow> get_float3 b2;
     (s, b4) \<leftarrow> get_float2 b3;
     (k, b5) \<leftarrow> get_u32 b4;
     Some \<lparr>modelMatrix = m, viewProjectionMatrix = vp, cameraPosition = c,
           spherePosition = s, sphereScale = k\<rparr>
   }"

definition read_FragmentUniforms :: "buffer \<Rightarrow> FragmentUniforms option" where
  "read_FragmentUniforms buf = do {
     (a, b1) \<leftarrow> get_array10 get_float3 buf;
     (n, b2) \<leftarrow> get_u32 b1;
     (t, b3) \<leftarrow> get_u32 b2;
     (l, b4) \<leftarrow> get_float3 b3;
     (d, b5) \<leftarrow> get_u32 b4;
     (g, b6) \<leftarrow> get_u32 b5;
     Some \<lparr>colors = a, colorCount = n, time = t, lightPosition = l,
           colorCycleDuration = d, glowIntensity = g\<rparr>
   }"

text \<open>
  A field in a buffer: \<open>slice off w buf\<close> is the \<open>w\<close> bytes of \<open>buf\<close> from byte
  offset \<open>off\<close> on. \<open>field_at put get off w x buf\<close> says that the value \<open>x\<close>
  takes \<open>w\<close> bytes, that the host has written these bytes at offset \<open>off\<close> of
  \<open>buf\<close>, and that the device, reading at the same offset, gets \<open>x\<close> and goes
  on at offset \<open>off + w\<close>.
\<close>

definition slice :: "nat \<Rightarrow> nat \<Rightarrow> buffer \<Rightarrow> buffer" where
  "slice off w buf = take w (drop off buf)"

definition field_at ::
  "('a \<Rightarrow> buffer) \<Rightarrow> (buffer \<Rightarrow> ('a \<times> buffer) option) \<Rightarrow> nat \<Rightarrow> nat \<Rightarrow> 'a \<Rightarrow> buffer
     \<Rightarrow> bool" where
  "field_at put get off w x buf \<longleftrightarrow>
     length (put x) = w \<and> slice off w buf = put x
     \<and> get (drop off buf) = Some (x, drop (off + w) buf)"

section \<open>Facts about arrays\<close>

lemma length_elems: "length (elems a) = 10"
  by (cases a) simp

section \<open>Facts about the buffer\<close>

lemma le_bytes_join:
  fixes w :: "32 word"
  shows "ucast (ucast w :: byte) OR push_bit 8 (ucast (ucast (drop_bit 8 w) :: byte))
     OR push_bit 16 (ucast (ucast (drop_bit 16 w) :: byte))
     OR push_bit 24 (ucast (ucast (drop_bit 24 w) :: byte)) = w"
proof (rule bit_word_eqI)
  fix n :: nat
  assume "n < LENGTH(32)"
  then consider "n < 8" | "8 \<le> n" "n < 16" | "16 \<le> n" "n < 24" | "24 \<le> n" "n < 32"
    by fastforce
  then show "bit (ucast (ucast w :: byte) OR push_bit 8 (ucast (ucast (drop_bit 8 w) :: byte))
     OR push_bit 16 (ucast (ucast (drop_bit 16 w) :: byte))
     OR push_bit 24 (ucast (ucast (drop_bit 24 w) :: byte)) :: 32 word) n = bit w n"
    by cases (auto simp: bit_simps)
qed

lemma get_put_u32 [simp]: "get_u32 (put_u32 w @ rest) = Some (w, rest)"
  by (simp add: put_u32_def le_bytes_join)

lemma get_put_float2 [simp]: "get_float2 (put_float2 v @ rest) = Some (v, rest)"
  by (simp add: get_float2_def put_float2_def)

lemma get_put_float3 [simp]: "get_float3 (put_float3 v @ rest) = Some (v, rest)"
  by (simp add: get_float3_def put_float3_def)

lemma get_put_float4 [simp]: "get_float4 (put_float4 v @ rest) = Some (v, rest)"
  by (simp add: get_float4_def put_float4_def)

lemma get_put_float4x4 [simp]: "get_float4x4 (put_float4x4 m @ rest) = Some (m, rest)"
  by (simp add: get_float4x4_def put_float4x4_def)

lemma get_put_array10:
  assumes "\<And>x rest. get (put x @ rest) = Some (x, rest)"
  shows "get_array10 get (put_array10 put a @ rest) = Some (a, rest)"
  by (cases a) (simp add: get_array10_def put_array10_def assms)

lemma read_write_VertexIn: "read_VertexIn (write_VertexIn v @ rest) = Some v"
  by (simp add: read_VertexIn_def write_VertexIn_def)

lemma read_write_VertexUniforms:
  "read_VertexUniforms (write_VertexUniforms u @ rest) = Some u"
  by (simp add: read_VertexUniforms_def write_VertexUniforms_def)

lemma read_write_FragmentUniforms:
  "read_FragmentUniforms (write_FragmentUniforms f @ rest) = Some f"
  by (simp add: read_FragmentUniforms_def write_FragmentUniforms_def get_put_array10)

lemma put_u32_example: "put_u32 0x3F800000 = [0x00, 0x00, 0x80, 0x3F]"
  by (simp add: put_u32_def)

lemma write_VertexIn_example:
  "write_VertexIn \<lparr>position = simd_make_float3 1 2 3, normal = simd_make_float3 4 5 6\<rparr>
     = [1, 0, 0, 0, 2, 0, 0, 0, 3, 0, 0, 0, 4, 0, 0, 0, 5, 0, 0, 0, 6, 0, 0, 0]"
  by (simp add: write_VertexIn_def put_float3_def put_u32_def)

lemma read_VertexIn_short:
  "read_VertexIn [1, 0, 0, 0, 2, 0, 0, 0, 3, 0, 0, 0, 4, 0, 0, 0, 5, 0, 0, 0, 6, 0, 0] = None"
  by (simp add: read_VertexIn_def get_float3_def)

section \<open>Field lists of the structs\<close>

text \<open>
  Claim C6. \<open>VertexIn\<close> consists of exactly two fields, in this order: \<open>position\<close>,
  a 3-component float vector, and \<open>normal\<close>, a 3-component float vector.
  \<open>VertexIn.make\<close> is the struct built from its field values in declaration
  order, as a C initialiser list gives them. A value of the struct is its two
  fields and nothing more, the first is read back as \<open>position\<close> and the second
  as \<open>normal\<close>, and such a vector is its three float components.
\<close>

theorem VertexIn_fields:
  fixes v :: VertexIn and p n :: simd_float3
  shows "v = VertexIn.make (position v) (normal v)
    \<and> position (VertexIn.make p n) = p
    \<and> normal (VertexIn.make p n) = n
    \<and> p = simd_make_float3 (f3x p) (f3y p) (f3z p)
    \<and> n = simd_make_float3 (f3x n) (f3y n) (f3z n)"
  by (simp add: VertexIn.defs)

text \<open>
  Claim C5. \<open>VertexUniforms\<close> consists of exactly these fields, in this order:
  \<open>modelMatrix\<close> and \<open>viewProjectionMatrix\<close>, 4x4 float matrices;
  \<open>cameraPosition\<close>, a 3-component float vector; \<open>spherePosition\<close>, a
  2-component float vector; \<open>sphereScale\<close>, a scalar float. A value of the struct
  is these five fields and nothing more, the value given at each position of
  the initialiser list is read back under the field name of that position, and
  the matrix and vector values are their four columns, and their four, three
  and two float components.
\<close>

theorem VertexUniforms_fields:
  fixes u :: VertexUniforms and m vp :: simd_float4x4 and q :: simd_float4
    and c :: simd_float3 and s :: simd_float2 and k :: float32
  shows "u = VertexUniforms.make (modelMatrix u) (viewProjectionMatrix u) (cameraPosition u)
        (spherePosition u) (sphereScale u)
    \<and> modelMatrix (VertexUniforms.make m vp c s k) = m
    \<and> viewProjectionMatrix (VertexUniforms.make m vp c s k) = vp
    \<and> cameraPosition (VertexUniforms.make m vp c s k) = c
    \<and> spherePosition (VertexUniforms.make m vp c s k) = s
    \<and> sphereScale (VertexUniforms.make m vp c s k) = k
    \<and> m = simd_matrix (col0 m) (col1 m) (col2 m) (col3 m)
    \<and> q = simd_make_float4 (f4x q) (f4y q) (f4z q) (f4w q)
    \<and> c = simd_make_float3 (f3x c) (f3y c) (f3z c)
    \<and> s = simd_make_float2 (f2x s) (f2y s)"
  by (simp add: VertexUniforms.defs)

text \<open>
  Claim C3. \<open>FragmentUniforms\<close> consists of exactly these fields, in this order:
  \<open>colors\<close>, an array of exactly 10 three-component float vectors;
  \<open>colorCount\<close>, an integer; \<open>time\<close>, a scalar float; \<open>lightPosition\<close>, a
  3-component float vector; \<open>colorCycleDuration\<close> and \<open>glowIntensity\<close>, scalar
  floats. A value of the struct is these six fields and nothing more, the value
  given at each position of the initialiser list is read back under the field
  name of that position, and the array has ten slots whatever it holds.
\<close>

theorem FragmentUniforms_fields:
  fixes f :: FragmentUniforms and a :: "simd_float3 array10" and n :: c_int
    and t d g :: float32 and l :: simd_float3
  shows "f = FragmentUniforms.make (colors f) (colorCount f) (time f) (lightPosition f)
        (colorCycleDuration f) (glowIntensity f)
    \<and> colors (FragmentUniforms.make a n t l d g) = a
    \<and> colorCount (FragmentUniforms.make a n t l d g) = n
    \<and> time (FragmentUniforms.make a n t l d g) = t
    \<and> lightPosition (FragmentUniforms.make a n t l d g) = l
    \<and> colorCycleDuration (FragmentUniforms.make a n t l d g) = d
    \<and> glowIntensity (FragmentUniforms.make a n t l d g) = g
    \<and> length (elems a) = 10
    \<and> l = simd_make_float3 (f3x l) (f3y l) (f3z l)"
  by (simp add: FragmentUniforms.defs length_elems)

section \<open>The colour count\<close>

text \<open>
  Claim C8. Both boundary values of \<open>colorCount\<close> are representable: there is a
  \<open>FragmentUniforms\<close> value whose count reads 0 and one whose count reads 10, and
  storing 0 or 10 in the field of any value and reading the field back gives
  exactly 0 and exactly 10, with no wrap-around of the 32-bit integer.
\<close>

theorem colorCount_boundaries:
  fixes f :: FragmentUniforms
  shows "(\<exists>u :: FragmentUniforms. sint (colorCount u) = 0)
    \<and> (\<exists>u :: FragmentUniforms. sint (colorCount u) = 10)
    \<and> sint (colorCount (f\<lparr>colorCount := word_of_int 0\<rparr>)) = 0
    \<and> sint (colorCount (f\<lparr>colorCount := word_of_int 10\<rparr>)) = 10"
proof -
  have "sint (colorCount (f\<lparr>colorCount := word_of_int 0\<rparr>)) = 0"
    by simp
  moreover have "sint (colorCount (f\<lparr>colorCount := word_of_int 10\<rparr>)) = 10"
    by simp
  ultimately show ?thesis
    by blast
qed

text \<open>
  Claim C9. \<open>colorCount\<close> is a signed 32-bit integer, so the type does not
  enforce \<open>0 \<le> colorCount \<le> 10\<close>: every value of the struct has a count between
  \<open>- 2^31\<close> and \<open>2^31 - 1\<close>, there is a value whose count is \<open>-1\<close> and one whose
  count is above 10, and so the bound does not hold of all values of the type.
\<close>

theorem colorCount_not_enforced:
  fixes f :: FragmentUniforms
  shows "- (2 ^ 31) \<le> sint (colorCount f) \<and> sint (colorCount f) < 2 ^ 31
    \<and> (\<exists>u :: FragmentUniforms. sint (colorCount u) = - 1)
    \<and> (\<exists>u :: FragmentUniforms. 10 < sint (colorCount u))
    \<and> \<not> (\<forall>u :: FragmentUniforms. 0 \<le> sint (colorCount u) \<and> sint (colorCount u) \<le> 10)"
proof -
  have range: "- (2 ^ 31) \<le> sint (colorCount f) \<and> sint (colorCount f) < 2 ^ 31"
    using sint_ge [of "colorCount f"] sint_lt [of "colorCount f"] by simp
  have neg: "sint (colorCount (f\<lparr>colorCount := - 1\<rparr>)) = - 1"
    by simp
  have big: "10 < sint (colorCount (f\<lparr>colorCount := 11\<rparr>))"
    by simp
  from neg have "\<not> (0 \<le> sint (colorCount (f\<lparr>colorCount := - 1\<rparr>)))"
    by simp
  then have "\<not> (\<forall>u :: FragmentUniforms. 0 \<le> sint (colorCount u) \<and> sint (colorCount u) \<le> 10)"
    by blast
  with range neg big show ?thesis
    by blast
qed

section \<open>Reading the colours\<close>

text \<open>
  Claim C10. For every \<open>FragmentUniforms\<close> value and every index \<open>0 \<le> i < 10\<close>,
  \<open>colors[i]\<close> is inside the array and yields the 3-component float vector of
  slot \<open>i\<close>, whatever \<open>colorCount\<close> is: the array has its ten slots also where
  the count is smaller than the index, negative or above ten.
\<close>

theorem colors_subscript_in_bounds:
  fixes f :: FragmentUniforms and i :: int
  assumes "0 \<le> i" and "i < 10"
  shows "nat i < length (elems (colors f))
    \<and> (\<forall>n. subscript (colors (f\<lparr>colorCount := n\<rparr>)) i = Some (elems (colors f) ! nat i))"
  using assms by (simp add: subscript_def length_elems)

theorem colors_subscript_in_bounds_witness:
  "(0 :: int) \<le> 9 \<and> (9 :: int) < 10 \<and>
   (\<forall>n. subscript (colors
      (\<lparr>colors = Array10 (simd_make_float3 1 0 0) (simd_make_float3 0 1 0)
          (simd_make_float3 0 0 1) (simd_make_float3 0 0 0) (simd_make_float3 0 0 0)
          (simd_make_float3 0 0 0) (simd_make_float3 0 0 0) (simd_make_float3 0 0 0)
          (simd_make_float3 0 0 0) (simd_make_float3 7 8 9),
        colorCount = 3, time = 0, lightPosition = simd_make_float3 0 0 0,
        colorCycleDuration = 0, glowIntensity = 0\<rparr>\<lparr>colorCount := n\<rparr>)) 9
      = Some (simd_make_float3 7 8 9))"
proof -
  let ?f = "\<lparr>colors = Array10 (simd_make_float3 1 0 0) (simd_make_float3 0 1 0)
          (simd_make_float3 0 0 1) (simd_make_float3 0 0 0) (simd_make_float3 0 0 0)
          (simd_make_float3 0 0 0) (simd_make_float3 0 0 0) (simd_make_float3 0 0 0)
          (simd_make_float3 0 0 0) (simd_make_float3 7 8 9),
        colorCount = 3, time = 0, lightPosition = simd_make_float3 0 0 0,
        colorCycleDuration = 0, glowIntensity = 0\<rparr>"
  have lo: "(0 :: int) \<le> 9" and hi: "(9 :: int) < 10"
    by simp_all
  from colors_subscript_in_bounds [OF lo hi, of ?f] show ?thesis
    by simp
qed

section \<open>Widths and offsets in the buffer\<close>

lemma length_put_u32: "length (put_u32 w) = 4"
  by (simp add: put_u32_def)

lemma length_put_float2: "length (put_float2 v) = 8"
  by (simp add: put_float2_def length_put_u32)

lemma length_put_float3: "length (put_float3 v) = 12"
  by (simp add: put_float3_def length_put_u32)

lemma length_put_float4: "length (put_float4 v) = 16"
  by (simp add: put_float4_def length_put_u32)

lemma length_put_float4x4: "length (put_float4x4 m) = 64"
  by (simp add: put_float4x4_def length_put_float4)

lemma length_put_colors: "length (put_array10 put_float3 a) = 120"
  by (cases a) (simp add: put_array10_def length_put_float3)

lemmas put_lengths = length_put_u32 length_put_float2 length_put_float3 length_put_float4
  length_put_float4x4 length_put_colors

lemma length_write_VertexIn: "length (write_VertexIn v) = 24"
  by (simp add: write_VertexIn_def put_lengths)

lemma length_write_VertexUniforms: "length (write_VertexUniforms u) = 152"
  by (simp add: write_VertexUniforms_def put_lengths)

lemma length_write_FragmentUniforms: "length (write_FragmentUniforms f) = 148"
  by (simp add: write_FragmentUniforms_def put_lengths)

lemma VertexIn_layout:
  "field_at put_float3 get_float3 0 12 (position v) (write_VertexIn v @ rest)"
  "field_at put_float3 get_float3 12 12 (normal v) (write_VertexIn v @ rest)"
  by (simp_all add: field_at_def slice_def write_VertexIn_def put_lengths)

lemma VertexUniforms_layout:
  "field_at put_float4x4 get_float4x4 0 64 (modelMatrix u) (write_VertexUniforms u @ rest)"
  "field_at put_float4x4 get_float4x4 64 64 (viewProjectionMatrix u)
     (write_VertexUniforms u @ rest)"
  "field_at put_float3 get_float3 128 12 (cameraPosition u) (write_VertexUniforms u @ rest)"
  "field_at put_float2 get_float2 140 8 (spherePosition u) (write_VertexUniforms u @ rest)"
  "field_at put_u32 get_u32 148 4 (sphereScale u) (write_VertexUniforms u @ rest)"
  by (simp_all add: field_at_def slice_def write_VertexUniforms_def put_lengths)

lemma FragmentUniforms_layout:
  "field_at (put_array10 put_float3) (get_array10 get_float3) 0 120 (colors f)
     (write_FragmentUniforms f @ rest)"
  "field_at put_u32 get_u32 120 4 (colorCount f) (write_FragmentUniforms f @ rest)"
  "field_at put_u32 get_u32 124 4 (time f) (write_FragmentUniforms f @ rest)"
  "field_at put_float3 get_float3 128 12 (lightPosition f) (write_FragmentUniforms f @ rest)"
  "field_at put_u32 get_u32 140 4 (colorCycleDuration f) (write_FragmentUniforms f @ rest)"
  "field_at put_u32 get_u32 144 4 (glowIntensity f) (write_FragmentUniforms f @ rest)"
  by (simp_all add: field_at_def slice_def write_FragmentUniforms_def put_lengths
      get_put_array10)

text \<open>
  Claim C2. In the three shared structs, as the host writes them and the device
  reads them, every 3-component vector takes exactly three 32-bit floats, every
  4-component vector four, every 4x4 matrix sixteen, and the count one 32-bit
  integer; the ten colours take ten 3-component vectors. Each struct has one
  byte size, and each of its fields one offset and one width, on both sides:
  the bytes the host writes for a field lie at that offset, and the device
  reading at that offset gets the field and goes on at the offset of the next
  one, ending where the host's bytes end. The widths are those of the buffer
  model above, which has them from the specification.
\<close>

theorem layout_widths_and_offsets:
  fixes v :: VertexIn and u :: VertexUniforms and f :: FragmentUniforms
    and n :: c_int and x :: float32 and c :: simd_float3 and q :: simd_float4
    and m :: simd_float4x4 and a :: "simd_float3 array10"
  shows "length (put_u32 n) = 4 \<and> length (put_u32 x) = 4
    \<and> length (put_float3 c) = 3 * length (put_u32 x)
    \<and> length (put_float4 q) = 4 * length (put_u32 x)
    \<and> length (put_float4x4 m) = 16 * length (put_u32 x)
    \<and> length (put_array10 put_float3 a) = 10 * length (put_float3 c)
    \<and> length (write_VertexIn v) = 24
    \<and> field_at put_float3 get_float3 0 12 (position v) (write_VertexIn v @ rest)
    \<and> field_at put_float3 get_float3 12 12 (normal v) (write_VertexIn v @ rest)
    \<and> drop 24 (write_VertexIn v @ rest) = rest
    \<and> length (write_VertexUniforms u) = 152
    \<and> field_at put_float4x4 get_float4x4 0 64 (modelMatrix u) (write_VertexUniforms u @ rest)
    \<and> field_at put_float4x4 get_float4x4 64 64 (viewProjectionMatrix u)
          (write_VertexUniforms u @ rest)
    \<and> field_at put_float3 get_float3 128 12 (cameraPosition u) (write_VertexUniforms u @ rest)
    \<and> field_at put_float2 get_float2 140 8 (spherePosition u) (write_VertexUniforms u @ rest)
    \<and> field_at put_u32 get_u32 148 4 (sphereScale u) (write_VertexUniforms u @ rest)
    \<and> drop 152 (write_VertexUniforms u @ rest) = rest
    \<and> length (write_FragmentUniforms f) = 148
    \<and> field_at (put_array10 put_float3) (get_array10 get_float3) 0 120 (colors f)
          (write_FragmentUniforms f @ rest)
    \<and> field_at put_u32 get_u32 120 4 (colorCount f) (write_FragmentUniforms f @ rest)
    \<and> field_at put_u32 get_u32 124 4 (time f) (write_FragmentUniforms f @ rest)
    \<and> field_at put_float3 get_float3 128 12 (lightPosition f)
          (write_FragmentUniforms f @ rest)
    \<and> field_at put_u32 get_u32 140 4 (colorCycleDuration f) (write_FragmentUniforms f @ rest)
    \<and> field_at put_u32 get_u32 144 4 (glowIntensity f) (write_FragmentUniforms f @ rest)
    \<and> drop 148 (write_FragmentUniforms f @ rest) = rest"
  by (simp add: put_lengths length_write_VertexIn length_write_VertexUniforms
      length_write_FragmentUniforms VertexIn_layout VertexUniforms_layout
      FragmentUniforms_layout)

section \<open>Round trip through the buffer\<close>

text \<open>
  Claim C4. For every instance of \<open>VertexIn\<close>, \<open>VertexUniforms\<close> and
  \<open>FragmentUniforms\<close>, writing its fields into a shared buffer on the host side
  and reading the struct back from the start of that buffer on the device side
  succeeds and yields the instance itself: every field equals the original, none
  is reordered or truncated. The buffer may hold further bytes after the
  struct.
\<close>

theorem buffer_round_trip:
  fixes v :: VertexIn and u :: VertexUniforms and f :: FragmentUniforms
  shows "read_VertexIn (write_VertexIn v @ rest) = Some v
    \<and> read_VertexUniforms (write_VertexUniforms u @ rest) = Some u
    \<and> read_FragmentUniforms (write_FragmentUniforms f @ rest) = Some f"
  by (simp add: read_write_VertexIn read_write_VertexUniforms read_write_FragmentUniforms)

end
